theory Spec2Isabelle
  imports Main "HOL-Library.Word"
begin

section \<open>Canvases\<close>

text \<open>
  The script \<^verbatim>\<open>create-test-images.py\<close> is a straight line of calls into a raster
  library and the operating system. Its own code is the order of the calls and their
  literal arguments; what each call does is the library's. The script is embedded
  statement by statement; the library calls it makes are modelled beside it, each marked
  as such.

  A canvas is a pixel buffer in row-major order together with its mode and dimensions.
  A colour is three bytes.
\<close>

type_synonym rgb = "8 word \<times> 8 word \<times> 8 word"
type_synonym point = "int \<times> int"
type_synonym box = "int \<times> int \<times> int \<times> int"

record image =
  mode :: string
  width :: nat
  height :: nat
  pixels :: "rgb list"

text \<open>
  Modelled from the spec: the raster library's \<^verbatim>\<open>Image.new(mode, size, color)\<close>, which is
  not part of the repository: "a fixed-dimension RGB pixel buffer, initially filled with a
  solid background color".
\<close>

definition Image_new :: "string \<Rightarrow> nat \<times> nat \<Rightarrow> rgb \<Rightarrow> image" where
  "Image_new m sz color =
     \<lparr>mode = m, width = fst sz, height = snd sz,
      pixels = replicate (fst sz * snd sz) color\<rparr>"

text \<open>
  Modelled from the spec: the raster library's \<^verbatim>\<open>getpixel(xy)\<close>, which the script does
  not call but the spec's scenarios do ("central pixel of image1"). It reads one pixel of
  the buffer; outside the canvas there is no pixel (the library raises
  \<^verbatim>\<open>IndexError\<close>).
\<close>

definition getpixel :: "image \<Rightarrow> nat \<times> nat \<Rightarrow> rgb option" where
  "getpixel im xy =
     (if fst xy < width im \<and> snd xy < height im
      then Some (pixels im ! (snd xy * width im + fst xy)) else None)"

definition xy_of :: "image \<Rightarrow> nat \<Rightarrow> point" where
  "xy_of im i = (int (i mod width im), int (i div width im))"

text \<open>
  Modelled from the spec: what every drawing primitive of the raster library does with the
  pixels its shape covers, "painter's-algorithm compositing, no blending". One ink is
  stamped on the covered pixels and the others are left as they are. Pixels of the shape
  that fall outside the canvas are clipped, since only buffer positions are visited.
\<close>

definition paint :: "(point \<Rightarrow> bool) \<Rightarrow> rgb \<Rightarrow> image \<Rightarrow> image" where
  "paint covers ink im =
     im\<lparr>pixels := map (\<lambda>(i, old). if covers (xy_of im i) then ink else old)
                        (enumerate 0 (pixels im))\<rparr>"

section \<open>Shapes\<close>

text \<open>
  Modelled from the spec: the raster library's ellipse primitive, which is not part of the
  repository: "an axis-aligned bounding ellipse (two corner points, fill color, optional
  outline color, optional outline width)". A pixel is covered when it lies in the bounding
  box and in the ellipse inscribed in it; the test is written in integers, with all
  coordinates doubled. The outline of width \<open>w\<close> is the part of the ellipse that is not
  in the ellipse of the box shrunk by \<open>w\<close> on every side. The spec fixes no anti-aliasing
  and no exact edge pixels; no result below rests on a pixel next to an edge.
\<close>

definition in_ellipse :: "box \<Rightarrow> point \<Rightarrow> bool" where
  "in_ellipse b p =
     (case b of (x0, y0, x1, y1) \<Rightarrow> case p of (x, y) \<Rightarrow>
        x0 \<le> x \<and> x \<le> x1 \<and> y0 \<le> y \<and> y \<le> y1 \<and>
        (2 * x - (x0 + x1))\<^sup>2 * (y1 - y0)\<^sup>2 + (2 * y - (y0 + y1))\<^sup>2 * (x1 - x0)\<^sup>2
          \<le> (x1 - x0)\<^sup>2 * (y1 - y0)\<^sup>2)"

definition shrink :: "box \<Rightarrow> int \<Rightarrow> box" where
  "shrink b w = (case b of (x0, y0, x1, y1) \<Rightarrow> (x0 + w, y0 + w, x1 - w, y1 - w))"

definition on_ellipse_outline :: "box \<Rightarrow> int \<Rightarrow> point \<Rightarrow> bool" where
  "on_ellipse_outline b w p = (in_ellipse b p \<and> \<not> in_ellipse (shrink b w) p)"

definition draw_ellipse :: "box \<Rightarrow> rgb \<Rightarrow> bool \<Rightarrow> int \<Rightarrow> image \<Rightarrow> image" where
  "draw_ellipse xy ink fill w im =
     (if fill then paint (in_ellipse xy) ink im
      else paint (on_ellipse_outline xy w) ink im)"

text \<open>
  Modelled from the spec: the raster library's polygon primitive, which is not part of the
  repository: "a polygon (ordered sequence of 2D integer points, fill color, optional
  outline color, optional outline width)". The edges join each point to the next and the
  last to the first. A pixel is filled when it lies on an edge or a ray from it to the
  right crosses an odd number of edges; a pixel is on the outline of width \<open>w\<close> when its
  distance to some edge is at most \<open>w / 2\<close>. Both tests are written in integers.
\<close>

definition edges :: "point list \<Rightarrow> (point \<times> point) list" where
  "edges ps = zip ps (rotate1 ps)"

definition crosses :: "point \<Rightarrow> point \<times> point \<Rightarrow> bool" where
  "crosses p e =
     (case p of (x, y) \<Rightarrow> case e of ((ax, ay), (bx, by)) \<Rightarrow>
        (ay \<le> y \<and> y < by \<and> (x - ax) * (by - ay) < (bx - ax) * (y - ay)) \<or>
        (by \<le> y \<and> y < ay \<and> (x - bx) * (ay - by) < (ax - bx) * (y - by)))"

definition on_segment :: "point \<Rightarrow> point \<times> point \<Rightarrow> bool" where
  "on_segment p e =
     (case p of (x, y) \<Rightarrow> case e of ((ax, ay), (bx, by)) \<Rightarrow>
        (bx - ax) * (y - ay) = (by - ay) * (x - ax) \<and>
        min ax bx \<le> x \<and> x \<le> max ax bx \<and> min ay by \<le> y \<and> y \<le> max ay by)"

definition in_polygon :: "point list \<Rightarrow> point \<Rightarrow> bool" where
  "in_polygon ps p =
     (list_ex (on_segment p) (edges ps) \<or> odd (length (filter (crosses p) (edges ps))))"

definition near_segment :: "int \<Rightarrow> point \<Rightarrow> point \<times> point \<Rightarrow> bool" where
  "near_segment w p e =
     (case p of (x, y) \<Rightarrow> case e of ((ax, ay), (bx, by)) \<Rightarrow>
        let dx = bx - ax; dy = by - ay;
            t = (x - ax) * dx + (y - ay) * dy;
            l = dx * dx + dy * dy
        in if t \<le> 0 then 4 * ((x - ax)\<^sup>2 + (y - ay)\<^sup>2) \<le> w\<^sup>2
           else if l \<le> t then 4 * ((x - bx)\<^sup>2 + (y - by)\<^sup>2) \<le> w\<^sup>2
           else 4 * ((x - ax) * dy - (y - ay) * dx)\<^sup>2 \<le> w\<^sup>2 * l)"

definition on_polygon_outline :: "point list \<Rightarrow> int \<Rightarrow> point \<Rightarrow> bool" where
  "on_polygon_outline ps w p = list_ex (near_segment w p) (edges ps)"

definition draw_polygon :: "point list \<Rightarrow> rgb \<Rightarrow> bool \<Rightarrow> int \<Rightarrow> image \<Rightarrow> image" where
  "draw_polygon xy ink fill w im =
     (if fill then paint (in_polygon xy) ink im
      else paint (on_polygon_outline xy w) ink im)"

section \<open>The drawing context\<close>

text \<open>
  Modelled from the spec: the drawing context's \<^verbatim>\<open>ellipse(xy, fill, outline, width)\<close> and
  \<^verbatim>\<open>polygon(xy, fill, outline, width)\<close>, which are not part of the repository. The spec
  names the arguments; how they combine follows the library's documentation. An absent
  argument is \<open>None\<close>. The fill is stamped first and the outline, when one is asked for
  and differs from the fill, on top of it. With neither fill nor outline the library draws
  a white outline. A polygon outline wider than one pixel is kept inside the polygon: it is
  drawn with width \<open>2 * w - 1\<close> and masked by the fill region.
\<close>

definition getink :: "rgb option \<Rightarrow> rgb option \<Rightarrow> rgb option \<times> rgb option" where
  "getink ink fill =
     (if ink = None \<and> fill = None then (Some (255, 255, 255), None) else (ink, fill))"

definition ellipse :: "box \<Rightarrow> rgb option \<Rightarrow> rgb option \<Rightarrow> int \<Rightarrow> image \<Rightarrow> image" where
  "ellipse xy fill outline w im =
     (case getink outline fill of (ink, fill_ink) \<Rightarrow>
        let im1 = (case fill_ink of None \<Rightarrow> im | Some f \<Rightarrow> draw_ellipse xy f True 0 im)
        in case ink of
             None \<Rightarrow> im1
           | Some k \<Rightarrow>
               if Some k \<noteq> fill_ink \<and> w \<noteq> 0 then draw_ellipse xy k False w im1 else im1)"

definition polygon :: "point list \<Rightarrow> rgb option \<Rightarrow> rgb option \<Rightarrow> int \<Rightarrow> image \<Rightarrow> image" where
  "polygon xy fill outline w im =
     (case getink outline fill of (ink, fill_ink) \<Rightarrow>
        let im1 = (case fill_ink of None \<Rightarrow> im | Some f \<Rightarrow> draw_polygon xy f True 0 im)
        in case ink of
             None \<Rightarrow> im1
           | Some k \<Rightarrow>
               if Some k \<noteq> fill_ink \<and> w \<noteq> 0 then
                 (if w = 1 then draw_polygon xy k False w im1
                  else paint (\<lambda>p. in_polygon xy p \<and> on_polygon_outline xy (w * 2 - 1) p) k im1)
               else im1)"

section \<open>The three canvases of the script\<close>

text \<open>
  The colours are the script's literals: \<^verbatim>\<open>'black'\<close> is \<open>(0, 0, 0)\<close> and
  \<^verbatim>\<open>'#rrggbb'\<close> is the three bytes it spells.
\<close>

definition black :: rgb where
  "black = (0, 0, 0)"

definition img1 :: image where
  "img1 =
     ellipse (100, 100, 300, 300) (Some (0x66, 0x7e, 0xea)) (Some (0x76, 0x4b, 0xa2)) 5
       (Image_new ''RGB'' (400, 400) black)"

definition star_points :: "point list" where
  "star_points =
     [(200, 50), (220, 150), (300, 150), (240, 210), (270, 300),
      (200, 250), (130, 300), (160, 210), (100, 150), (180, 150)]"

definition img2 :: image where
  "img2 =
     polygon star_points (Some (0xf0, 0x93, 0xfb)) (Some (0xf5, 0x57, 0x6c)) 5
       (Image_new ''RGB'' (400, 400) black)"

definition img3 :: image where
  "img3 =
     polygon [(80, 150), (320, 150), (200, 330)] (Some (0xff, 0x52, 0x52)) None 1
       (ellipse (220, 100, 320, 200) (Some (0xff, 0x52, 0x52)) None 1
          (ellipse (80, 100, 180, 200) (Some (0xff, 0x52, 0x52)) None 1
             (Image_new ''RGB'' (400, 400) black)))"

section \<open>The file system\<close>

text \<open>
  Modelled from the spec: the operating system's directory tree and the calls
  \<^verbatim>\<open>os.makedirs(name, exist_ok=True)\<close> and \<^verbatim>\<open>img.save(path)\<close>, which are not part of the
  repository: "create recursively if absent; no error if already present" and "write it to
  the fixed path, overwriting any existing file at that path"; the write fails on a "path
  collision with a non-directory".

  A path is the list of its components below the root, so \<^verbatim>\<open>/tmp/test-images\<close> is
  \<open>[''tmp'', ''test-images'']\<close>. The tree is a map from paths to nodes; the root is always
  a directory. A PNG file is represented by the canvas it decodes to: the codec is
  lossless and is not modelled further. Failures that the tree does not decide (a full
  disk, a missing permission) are outside the model.
\<close>

datatype content = PNG image | Bytes "8 word list"

datatype node = Dir | File content

datatype error =
  FileExistsError | FileNotFoundError | NotADirectoryError | IsADirectoryError

type_synonym path = "string list"

type_synonym fs = "path \<Rightarrow> node option"

text \<open>
  Modelled from the spec: path resolution, as \<^verbatim>\<open>os.stat\<close> does it. The walk starts at
  the root and goes down one component at a time; it fails when a component is missing or
  when it has to go through a file.
\<close>

fun resolve :: "fs \<Rightarrow> path \<Rightarrow> path \<Rightarrow> error + node" where
  "resolve t cur [] =
     (if cur = [] then Inr Dir
      else case t cur of None \<Rightarrow> Inl FileNotFoundError | Some n \<Rightarrow> Inr n)"
| "resolve t cur (c # cs) =
     (case (if cur = [] then Some Dir else t cur) of
        None \<Rightarrow> Inl FileNotFoundError
      | Some (File x) \<Rightarrow> Inl NotADirectoryError
      | Some Dir \<Rightarrow> resolve t (cur @ [c]) cs)"

definition stat :: "fs \<Rightarrow> path \<Rightarrow> error + node" where
  "stat t p = resolve t [] p"


definition path_exists :: "fs \<Rightarrow> path \<Rightarrow> bool" where
  "path_exists t p = (case stat t p of Inl e \<Rightarrow> False | Inr n \<Rightarrow> True)"

definition isdir :: "fs \<Rightarrow> path \<Rightarrow> bool" where
  "isdir t p = (stat t p = Inr Dir)"

text \<open>
  Modelled from the spec: \<^verbatim>\<open>os.mkdir\<close>, which creates one directory in a parent that
  exists and fails when the path is taken already.
\<close>

definition mkdir :: "path \<Rightarrow> fs \<Rightarrow> fs \<times> error option" where
  "mkdir p t =
     (if p = [] then (t, Some FileExistsError)
      else case stat t (butlast p) of
             Inl e \<Rightarrow> (t, Some e)
           | Inr (File x) \<Rightarrow> (t, Some NotADirectoryError)
           | Inr Dir \<Rightarrow>
               (case t p of
                  None \<Rightarrow> (t(p \<mapsto> Dir), None)
                | Some n \<Rightarrow> (t, Some FileExistsError)))"

text \<open>
  Modelled from the spec: \<^verbatim>\<open>os.makedirs\<close>, with the recursion of the standard library.
  When the parent is missing it is made first, by the same call, and a
  \<^verbatim>\<open>FileExistsError\<close> of that call is passed over; then the directory itself is made,
  and the error of this last step is swallowed only when \<open>exist_ok\<close> is set and the
  path is a directory.
\<close>

function makedirs :: "path \<Rightarrow> bool \<Rightarrow> fs \<Rightarrow> fs \<times> error option" where
  "makedirs name exist_ok t =
     (case (if name \<noteq> [] \<and> \<not> path_exists t (butlast name)
            then makedirs (butlast name) exist_ok t else (t, None)) of
        (t1, r) \<Rightarrow>
          if r \<noteq> None \<and> r \<noteq> Some FileExistsError then (t1, r)
          else (case mkdir name t1 of
                  (t2, None) \<Rightarrow> (t2, None)
                | (t2, Some e) \<Rightarrow>
                    if \<not> exist_ok \<or> \<not> isdir t2 name then (t2, Some e) else (t2, None)))"
  by pat_completeness auto
termination
  by (relation "measure (\<lambda>(name, exist_ok, t). length name)") auto

declare makedirs.simps [simp del]

text \<open>
  Modelled from the spec: \<^verbatim>\<open>img.save(path)\<close>, which opens the path for writing and writes
  the encoded canvas. The parent must be a directory and the path must not be one; a file
  already there is replaced. A failed save leaves the tree as it was.
\<close>

definition save :: "image \<Rightarrow> path \<Rightarrow> fs \<Rightarrow> fs \<times> error option" where
  "save im p t =
     (if p = [] then (t, Some IsADirectoryError)
      else case stat t (butlast p) of
             Inl e \<Rightarrow> (t, Some e)
           | Inr (File x) \<Rightarrow> (t, Some NotADirectoryError)
           | Inr Dir \<Rightarrow>
               (case t p of
                  Some Dir \<Rightarrow> (t, Some IsADirectoryError)
                | _ \<Rightarrow> (t(p \<mapsto> File (PNG im)), None)))"

text \<open>
  Modelled from the spec: opening a written file again, which the script does not do but
  the spec's scenarios do ("each decodes as RGB, 400\<times>400"). Only a PNG file decodes, to
  the canvas that was encoded.
\<close>

definition Image_open :: "fs \<Rightarrow> path \<Rightarrow> image option" where
  "Image_open t p =
     (case stat t p of Inr (File (PNG im)) \<Rightarrow> Some im | _ \<Rightarrow> None)"

section \<open>The script\<close>

text \<open>
  The world the script acts on is the directory tree and the console; the command line
  and the environment are part of it too, though no statement of the script reads them.
  A statement takes the world and returns the world it leaves and the exception it
  raised, if any. A block runs its statements in order and stops at the first exception,
  which is how the interpreter runs a module without \<^verbatim>\<open>try\<close>. Printing appends one
  line to the console and does not fail.

  The script itself follows its source line by line. Building a canvas touches nothing
  in the world, so the three canvases are the values \<open>img1\<close>, \<open>img2\<close> and \<open>img3\<close>
  above and the statements that remain are the directory call, the three saves and the
  four prints, in the order of the source.
\<close>

record world =
  files :: fs
  stdout :: "string list"
  argv :: "string list"
  environ :: "string \<Rightarrow> string option"

type_synonym stmt = "world \<Rightarrow> world \<times> error option"

definition on_files :: "(fs \<Rightarrow> fs \<times> error option) \<Rightarrow> stmt" where
  "on_files f w = (case f (files w) of (t, r) \<Rightarrow> (w\<lparr>files := t\<rparr>, r))"

definition print :: "string \<Rightarrow> stmt" where
  "print s w = (w\<lparr>stdout := stdout w @ [s]\<rparr>, None)"

fun block :: "stmt list \<Rightarrow> stmt" where
  "block [] w = (w, None)"
| "block (s # ss) w =
     (case s w of (w1, None) \<Rightarrow> block ss w1 | (w1, Some e) \<Rightarrow> (w1, Some e))"

definition outdir :: path where
  "outdir = [''tmp'', ''test-images'']"

definition image1_png :: path where
  "image1_png = outdir @ [''image1.png'']"

definition image2_png :: path where
  "image2_png = outdir @ [''image2.png'']"

definition image3_png :: path where
  "image3_png = outdir @ [''image3.png'']"

definition script :: "stmt list" where
  "script =
     [on_files (makedirs outdir True),
      on_files (save img1 image1_png),
      print ''Created image1.png'',
      on_files (save img2 image2_png),
      print ''Created image2.png'',
      on_files (save img3 image3_png),
      print ''Created image3.png'',
      print (CHR 0x0A # ''Test images created in /tmp/test-images/'')]"

definition main :: stmt where
  "main = block script"

section \<open>Sample worlds\<close>

text \<open>
  Three worlds on which the theorems below are tried: one with an empty tree; one where
  the output directory exists and holds a file of someone else's, run with arguments and
  an environment; and one where a directory sits at the path of the second image.
\<close>

definition fresh :: world where
  "fresh = \<lparr>files = Map.empty, stdout = [], argv = [], environ = Map.empty\<rparr>"

definition notes_txt :: path where
  "notes_txt = outdir @ [''notes.txt'']"

definition busy :: world where
  "busy = \<lparr>files = [[''tmp''] \<mapsto> Dir, outdir \<mapsto> Dir,
                      notes_txt \<mapsto> File (Bytes [0x68, 0x69])],
            stdout = [], argv = [''--seed'', ''7''],
            environ = [''HOME'' \<mapsto> ''/root'']\<rparr>"


section \<open>Facts about canvases and painting\<close>

lemma Image_new_fields [simp]:
  "mode (Image_new m sz c) = m"
  "width (Image_new m sz c) = fst sz"
  "height (Image_new m sz c) = snd sz"
  "length (pixels (Image_new m sz c)) = fst sz * snd sz"
  by (simp_all add: Image_new_def)

lemma paint_fields [simp]:
  "mode (paint R c im) = mode im"
  "width (paint R c im) = width im"
  "height (paint R c im) = height im"
  "length (pixels (paint R c im)) = length (pixels im)"
  by (simp_all add: paint_def)

lemma pixels_paint_nth:
  "i < length (pixels im) \<Longrightarrow>
   pixels (paint R c im) ! i = (if R (xy_of im i) then c else pixels im ! i)"
  by (simp add: paint_def nth_enumerate_eq)

lemma xy_of_paint [simp]: "xy_of (paint R c im) i = xy_of im i"
  by (simp add: xy_of_def)

lemma index_in_buffer:
  assumes "x < w" and "y < (h::nat)"
  shows "y * w + x < w * h"
proof -
  have "y * w + x < Suc y * w" using assms by simp
  also have "\<dots> \<le> h * w" using assms by (intro mult_le_mono1) simp
  finally show ?thesis by (simp add: mult.commute)
qed

lemma xy_of_index:
  "x < width im \<Longrightarrow> xy_of im (y * width im + x) = (int x, int y)"
  by (simp add: xy_of_def)

text \<open>
  The painter's law: a painted pixel takes the ink whatever was there before, and every
  other pixel keeps its value.
\<close>

lemma getpixel_paint:
  assumes "length (pixels im) = width im * height im"
  shows "getpixel (paint R c im) (x, y) =
     (case getpixel im (x, y) of
        None \<Rightarrow> None
      | Some old \<Rightarrow> Some (if R (int x, int y) then c else old))"
  using assms index_in_buffer [of x "width im" y "height im"]
  by (simp add: getpixel_def pixels_paint_nth xy_of_index)

lemma getpixel_Image_new:
  "getpixel (Image_new m (w, h) c) (x, y) = (if x < w \<and> y < h then Some c else None)"
  using index_in_buffer [of x w y h]
  by (simp add: getpixel_def Image_new_def)

lemma ellipse_fill_only:
  "ellipse xy (Some f) None w im = paint (in_ellipse xy) f im"
  by (simp add: ellipse_def getink_def draw_ellipse_def)

lemma polygon_fill_only:
  "polygon xy (Some f) None w im = paint (in_polygon xy) f im"
  by (simp add: polygon_def getink_def draw_polygon_def)

lemma ellipse_fill_outline:
  "ellipse xy (Some f) (Some k) w im =
     (if k \<noteq> f \<and> w \<noteq> 0
      then paint (on_ellipse_outline xy w) k (paint (in_ellipse xy) f im)
      else paint (in_ellipse xy) f im)"
  by (simp add: ellipse_def getink_def draw_ellipse_def)

lemma polygon_fill_outline:
  "polygon xy (Some f) (Some k) w im =
     (if k \<noteq> f \<and> w \<noteq> 0
      then (if w = 1 then paint (on_polygon_outline xy w) k (paint (in_polygon xy) f im)
            else paint (\<lambda>p. in_polygon xy p \<and> on_polygon_outline xy (w * 2 - 1) p) k
                   (paint (in_polygon xy) f im))
      else paint (in_polygon xy) f im)"
  by (simp add: polygon_def getink_def draw_polygon_def)

section \<open>Facts about the file system and the script\<close>

lemma stat_root [simp]: "stat t [] = Inr Dir"
  by (simp add: stat_def)

lemma stat_tmp:
  "stat t [''tmp''] = (case t [''tmp''] of None \<Rightarrow> Inl FileNotFoundError | Some n \<Rightarrow> Inr n)"
  by (simp add: stat_def)

lemma stat_outdir:
  "stat t outdir =
     (case t [''tmp''] of
        None \<Rightarrow> Inl FileNotFoundError
      | Some (File x) \<Rightarrow> Inl NotADirectoryError
      | Some Dir \<Rightarrow> (case t outdir of None \<Rightarrow> Inl FileNotFoundError | Some n \<Rightarrow> Inr n))"
  by (simp add: stat_def outdir_def split: option.splits node.splits)

lemma isdir_outdir:
  "isdir t outdir \<longleftrightarrow> t [''tmp''] = Some Dir \<and> t outdir = Some Dir"
  by (auto simp add: isdir_def stat_outdir split: option.splits node.splits)

lemma makedirs_tmp:
  "makedirs [''tmp''] True t =
     (case t [''tmp''] of
        None \<Rightarrow> (t([''tmp''] \<mapsto> Dir), None)
      | Some Dir \<Rightarrow> (t, None)
      | Some (File x) \<Rightarrow> (t, Some FileExistsError))"
  by (subst makedirs.simps)
     (simp add: path_exists_def mkdir_def isdir_def stat_tmp split: option.splits node.splits)

lemma outdir_facts [simp]:
  "outdir \<noteq> []" "butlast outdir = [''tmp'']" "outdir \<noteq> [''tmp'']" "[''tmp''] \<noteq> outdir"
  by (simp_all add: outdir_def)

lemma mkdir_outdir:
  "mkdir outdir t =
     (case t [''tmp''] of
        None \<Rightarrow> (t, Some FileNotFoundError)
      | Some (File x) \<Rightarrow> (t, Some NotADirectoryError)
      | Some Dir \<Rightarrow>
          (case t outdir of
             None \<Rightarrow> (t(outdir \<mapsto> Dir), None)
           | Some n \<Rightarrow> (t, Some FileExistsError)))"
  by (simp add: mkdir_def stat_tmp split: option.splits node.splits)

lemma makedirs_outdir:
  "makedirs outdir True t =
     (case t [''tmp''] of
        None \<Rightarrow>
          (case t outdir of
             None \<Rightarrow> (t([''tmp''] \<mapsto> Dir, outdir \<mapsto> Dir), None)
           | Some Dir \<Rightarrow> (t([''tmp''] \<mapsto> Dir), None)
           | Some (File x) \<Rightarrow> (t([''tmp''] \<mapsto> Dir), Some FileExistsError))
      | Some (File x) \<Rightarrow> (t, Some NotADirectoryError)
      | Some Dir \<Rightarrow>
          (case t outdir of
             None \<Rightarrow> (t(outdir \<mapsto> Dir), None)
           | Some Dir \<Rightarrow> (t, None)
           | Some (File x) \<Rightarrow> (t, Some FileExistsError)))"
  by (subst makedirs.simps)
     (simp add: makedirs_tmp path_exists_def mkdir_outdir isdir_outdir stat_tmp
        split: option.splits node.splits)

lemma image_paths [simp]:
  "butlast image1_png = outdir" "butlast image2_png = outdir" "butlast image3_png = outdir"
  "image1_png \<noteq> []" "image2_png \<noteq> []" "image3_png \<noteq> []"
  "image1_png \<noteq> outdir" "image2_png \<noteq> outdir" "image3_png \<noteq> outdir"
  "image1_png \<noteq> [''tmp'']" "image2_png \<noteq> [''tmp'']" "image3_png \<noteq> [''tmp'']"
  "outdir \<noteq> image1_png" "outdir \<noteq> image2_png" "outdir \<noteq> image3_png"
  "[''tmp''] \<noteq> image1_png" "[''tmp''] \<noteq> image2_png" "[''tmp''] \<noteq> image3_png"
  by (simp_all add: image1_png_def image2_png_def image3_png_def outdir_def)

lemma image_paths_distinct [simp]:
  "image1_png \<noteq> image2_png" "image1_png \<noteq> image3_png" "image2_png \<noteq> image3_png"
  "image2_png \<noteq> image1_png" "image3_png \<noteq> image1_png" "image3_png \<noteq> image2_png"
  by (simp_all add: image1_png_def image2_png_def image3_png_def)

lemma save_in_outdir:
  assumes "isdir t outdir" and "butlast p = outdir" and "p \<noteq> []"
  shows "save im p t =
     (if t p = Some Dir then (t, Some IsADirectoryError)
      else (t(p \<mapsto> File (PNG im)), None))"
  using assms by (simp add: save_def isdir_def split: option.splits node.splits)

lemma isdir_outdir_upd:
  "p \<noteq> outdir \<Longrightarrow> p \<noteq> [''tmp''] \<Longrightarrow> isdir (t(p \<mapsto> n)) outdir = isdir t outdir"
  by (simp add: isdir_outdir)

lemma fixtures_run:
  assumes "isdir (files w) outdir"
  shows "block (tl script) w =
     (if files w image1_png = Some Dir then (w, Some IsADirectoryError)
      else if files w image2_png = Some Dir then
        (w\<lparr>files := (files w)(image1_png \<mapsto> File (PNG img1)),
           stdout := stdout w @ [''Created image1.png'']\<rparr>, Some IsADirectoryError)
      else if files w image3_png = Some Dir then
        (w\<lparr>files := (files w)(image1_png \<mapsto> File (PNG img1), image2_png \<mapsto> File (PNG img2)),
           stdout := stdout w @ [''Created image1.png'', ''Created image2.png'']\<rparr>,
         Some IsADirectoryError)
      else
        (w\<lparr>files := (files w)(image1_png \<mapsto> File (PNG img1), image2_png \<mapsto> File (PNG img2),
                               image3_png \<mapsto> File (PNG img3)),
           stdout := stdout w @ [''Created image1.png'', ''Created image2.png'',
                       ''Created image3.png'',
                       CHR 0x0A # ''Test images created in /tmp/test-images/'']\<rparr>, None))"
  using assms
  by (simp add: script_def on_files_def print_def save_in_outdir isdir_outdir_upd)

lemma main_unfold:
  "main w =
     (case makedirs outdir True (files w) of
        (t1, None) \<Rightarrow> block (tl script) (w\<lparr>files := t1\<rparr>)
      | (t1, Some e) \<Rightarrow> (w\<lparr>files := t1\<rparr>, Some e))"
  by (simp add: main_def script_def on_files_def split: prod.splits option.splits)

lemma makedirs_outdir_ok:
  "makedirs outdir True t = (t1, None) \<Longrightarrow> isdir t1 outdir"
  by (auto simp add: makedirs_outdir isdir_outdir split: option.splits node.splits)

lemma makedirs_outdir_present:
  "isdir t outdir \<Longrightarrow> makedirs outdir True t = (t, None)"
  by (simp add: makedirs_outdir isdir_outdir)


section \<open>The circle\<close>

lemma img1_paint:
  "img1 =
     paint (on_ellipse_outline (100, 100, 300, 300) 5) (0x76, 0x4b, 0xa2)
       (paint (in_ellipse (100, 100, 300, 300)) (0x66, 0x7e, 0xea)
          (Image_new ''RGB'' (400, 400) black))"
  by (simp add: img1_def ellipse_fill_outline)

text \<open>
  C3: after a run, the central pixel \<open>(200, 200)\<close> of image1 lies in the fill region
  of the circle and not on its outline, and its colour is the fill \<^verbatim>\<open>#667eea\<close>, which is
  neither the black background nor the outline colour \<^verbatim>\<open>#764ba2\<close>.
\<close>

theorem image1_centre_is_fill:
  "getpixel img1 (200, 200) = Some (0x66, 0x7e, 0xea) \<and>
   in_ellipse (100, 100, 300, 300) (200, 200) \<and>
   \<not> on_ellipse_outline (100, 100, 300, 300) 5 (200, 200) \<and>
   ((0x66, 0x7e, 0xea) :: rgb) \<noteq> black \<and>
   ((0x66, 0x7e, 0xea) :: rgb) \<noteq> (0x76, 0x4b, 0xa2)"
  by (simp add: img1_paint getpixel_paint getpixel_Image_new in_ellipse_def
        on_ellipse_outline_def shrink_def black_def)

section \<open>The heart\<close>

lemma paint_colours: "set (pixels (paint R c im)) \<subseteq> insert c (set (pixels im))"
proof
  fix v assume "v \<in> set (pixels (paint R c im))"
  then obtain i where i: "i < length (pixels im)" and v: "v = pixels (paint R c im) ! i"
    by (auto simp add: in_set_conv_nth)
  then show "v \<in> insert c (set (pixels im))"
    by (simp add: pixels_paint_nth)
qed

lemma Image_new_colours: "set (pixels (Image_new m sz c)) \<subseteq> {c}"
  by (auto simp add: Image_new_def)

lemma img3_paint:
  "img3 =
     paint (in_polygon [(80, 150), (320, 150), (200, 330)]) (0xff, 0x52, 0x52)
       (paint (in_ellipse (220, 100, 320, 200)) (0xff, 0x52, 0x52)
          (paint (in_ellipse (80, 100, 180, 200)) (0xff, 0x52, 0x52)
             (Image_new ''RGB'' (400, 400) black)))"
  by (simp add: img3_def ellipse_fill_only polygon_fill_only)

lemma getpixel_in_set:
  "getpixel im xy = Some c \<Longrightarrow> length (pixels im) = width im * height im \<Longrightarrow> c \<in> set (pixels im)"
  using index_in_buffer [of "fst xy" "width im" "snd xy" "height im"]
  by (auto simp add: getpixel_def split: if_splits)

text \<open>
  C9: the heart canvas has two colours only. After the first circle, after the second
  circle and after the triangle (the finished image3), every pixel of the buffer is the
  black background or the fill \<^verbatim>\<open>#ff5252\<close>: the three shapes have the same fill and
  no outline, so their overlaps leave no seam and no third colour.
\<close>

theorem heart_two_colours:
  "set (pixels (ellipse (80, 100, 180, 200) (Some (0xff, 0x52, 0x52)) None 1
                  (Image_new ''RGB'' (400, 400) black)))
     \<subseteq> {black, (0xff, 0x52, 0x52)} \<and>
   set (pixels (ellipse (220, 100, 320, 200) (Some (0xff, 0x52, 0x52)) None 1
                  (ellipse (80, 100, 180, 200) (Some (0xff, 0x52, 0x52)) None 1
                     (Image_new ''RGB'' (400, 400) black))))
     \<subseteq> {black, (0xff, 0x52, 0x52)} \<and>
   set (pixels img3) \<subseteq> {black, (0xff, 0x52, 0x52)}"
proof -
  let ?red = "(0xff, 0x52, 0x52) :: rgb"
  let ?S = "{black, ?red}"
  have step: "set (pixels (paint R ?red im)) \<subseteq> ?S" if "set (pixels im) \<subseteq> ?S" for R im
    using paint_colours [of R ?red im] that by auto
  have s0: "set (pixels (Image_new ''RGB'' (400, 400) black)) \<subseteq> ?S"
    using Image_new_colours [of "''RGB''" "(400, 400)" black] by auto
  show ?thesis
    by (simp only: img3_paint ellipse_fill_only) (intro conjI step s0)
qed

lemma three_layers:
  assumes "x < w" and "y < h"
  shows "getpixel (paint R3 f3 (paint R2 f2 (paint R1 f1 (Image_new m (w, h) bg)))) (x, y) =
     Some (if R3 (int x, int y) then f3
           else if R2 (int x, int y) then f2
           else if R1 (int x, int y) then f1 else bg)"
  using assms by (simp add: getpixel_paint getpixel_Image_new)

text \<open>
  C2: the heart is drawn in the order of the script, the two filled circles first and the
  filled triangle last, and each draw overwrites what lies under it without blending. The
  final canvas is that composition; read pixel by pixel, a pixel has the ink of the last
  shape that covers it, whatever inks the three shapes and the background are given, and
  with the script's single ink it is \<^verbatim>\<open>#ff5252\<close> exactly on the pixels some shape covers.
\<close>

theorem heart_painted_in_order:
  assumes "x < 400" and "y < 400"
  shows
    "img3 =
       polygon [(80, 150), (320, 150), (200, 330)] (Some (0xff, 0x52, 0x52)) None 1
         (ellipse (220, 100, 320, 200) (Some (0xff, 0x52, 0x52)) None 1
            (ellipse (80, 100, 180, 200) (Some (0xff, 0x52, 0x52)) None 1
               (Image_new ''RGB'' (400, 400) black))) \<and>
     getpixel
       (polygon [(80, 150), (320, 150), (200, 330)] (Some f3) None 1
          (ellipse (220, 100, 320, 200) (Some f2) None 1
             (ellipse (80, 100, 180, 200) (Some f1) None 1
                (Image_new ''RGB'' (400, 400) bg)))) (x, y) =
       Some (if in_polygon [(80, 150), (320, 150), (200, 330)] (int x, int y) then f3
             else if in_ellipse (220, 100, 320, 200) (int x, int y) then f2
             else if in_ellipse (80, 100, 180, 200) (int x, int y) then f1
             else bg) \<and>
     getpixel img3 (x, y) =
       Some (if in_polygon [(80, 150), (320, 150), (200, 330)] (int x, int y)
               \<or> in_ellipse (220, 100, 320, 200) (int x, int y)
               \<or> in_ellipse (80, 100, 180, 200) (int x, int y)
             then (0xff, 0x52, 0x52) else black)"
  using assms
  by (simp add: img3_def ellipse_fill_only polygon_fill_only three_layers)

lemma tri_130_160: "in_polygon [(80, 150), (320, 150), (200, 330)] (130, 160)"
  by (simp add: in_polygon_def edges_def crosses_def on_segment_def)

lemma e1_130_160: "in_ellipse (80, 100, 180, 200) (130, 160)"
  by (simp add: in_ellipse_def)

theorem heart_painted_in_order_witness:
  "(130 :: nat) < 400 \<and> (160 :: nat) < 400 \<and>
   in_polygon [(80, 150), (320, 150), (200, 330)] (130, 160) \<and>
   in_ellipse (80, 100, 180, 200) (130, 160) \<and>
   getpixel
     (polygon [(80, 150), (320, 150), (200, 330)] (Some (3, 3, 3)) None 1
        (ellipse (220, 100, 320, 200) (Some (2, 2, 2)) None 1
           (ellipse (80, 100, 180, 200) (Some (1, 1, 1)) None 1
              (Image_new ''RGB'' (400, 400) (0, 0, 0))))) (130, 160) = Some (3, 3, 3) \<and>
   getpixel img3 (130, 160) = Some (0xff, 0x52, 0x52)"
  using heart_painted_in_order [of 130 160 "(3, 3, 3)" "(2, 2, 2)" "(1, 1, 1)" "(0, 0, 0)"]
    tri_130_160 e1_130_160
  by simp

lemma tri_270_160: "in_polygon [(80, 150), (320, 150), (200, 330)] (270, 160)"
  by (simp add: in_polygon_def edges_def crosses_def on_segment_def)

lemma e2_270_160: "in_ellipse (220, 100, 320, 200) (270, 160)"
  by (simp add: in_ellipse_def)

lemma in_ellipse_box:
  "in_ellipse (x0, y0, x1, y1) (x, y) \<Longrightarrow> x0 \<le> x \<and> x \<le> x1 \<and> y0 \<le> y \<and> y \<le> y1"
  by (simp add: in_ellipse_def)

text \<open>
  C4, as stated, speaks of a pixel lying in the first circle, in the second circle and in
  the triangle at once. There is none: the bounding boxes of the two circles end at
  \<open>x = 180\<close> and begin at \<open>x = 220\<close>.
\<close>

theorem heart_circles_share_no_point:
  "\<not> (\<exists>p. in_ellipse (80, 100, 180, 200) p \<and> in_ellipse (220, 100, 320, 200) p \<and>
          in_polygon [(80, 150), (320, 150), (200, 330)] p)"
proof
  assume "\<exists>p. in_ellipse (80, 100, 180, 200) p \<and> in_ellipse (220, 100, 320, 200) p \<and>
          in_polygon [(80, 150), (320, 150), (200, 330)] p"
  then obtain x y where "in_ellipse (80, 100, 180, 200) (x, y)"
    and "in_ellipse (220, 100, 320, 200) (x, y)"
    by auto
  then have "x \<le> 180" and "220 \<le> x"
    by (auto dest: in_ellipse_box)
  then show False by simp
qed

text \<open>
  C4, amended: every pixel of image3 in the overlap of the triangle with either of the
  two circles has the heart fill \<^verbatim>\<open>#ff5252\<close>, and each circle does overlap the
  triangle, at \<open>(130, 160)\<close> and at \<open>(270, 160)\<close>.
\<close>

theorem heart_overlap_is_fill:
  assumes "x < 400" and "y < 400"
    and "in_ellipse (80, 100, 180, 200) (int x, int y) \<or>
         in_ellipse (220, 100, 320, 200) (int x, int y)"
    and "in_polygon [(80, 150), (320, 150), (200, 330)] (int x, int y)"
  shows "getpixel img3 (x, y) = Some (0xff, 0x52, 0x52) \<and>
    in_ellipse (80, 100, 180, 200) (130, 160) \<and>
    in_polygon [(80, 150), (320, 150), (200, 330)] (130, 160) \<and>
    in_ellipse (220, 100, 320, 200) (270, 160) \<and>
    in_polygon [(80, 150), (320, 150), (200, 330)] (270, 160)"
  using assms tri_130_160 e1_130_160 tri_270_160 e2_270_160
  by (simp add: img3_paint getpixel_paint getpixel_Image_new)

theorem heart_overlap_is_fill_witness:
  "getpixel img3 (130, 160) = Some (0xff, 0x52, 0x52) \<and>
   getpixel img3 (270, 160) = Some (0xff, 0x52, 0x52)"
  using heart_overlap_is_fill [of 130 160] heart_overlap_is_fill [of 270 160]
    tri_130_160 e1_130_160 tri_270_160 e2_270_160
  by simp

section \<open>The run\<close>

lemma stat_in_outdir:
  assumes "isdir t outdir" and "butlast p = outdir" and "p \<noteq> []"
  shows "stat t p = (case t p of None \<Rightarrow> Inl FileNotFoundError | Some n \<Rightarrow> Inr n)"
proof -
  from assms(2,3) have p: "p = outdir @ [last p]"
    by (metis append_butlast_last_id)
  have "stat t (outdir @ [c]) =
      (case t (outdir @ [c]) of None \<Rightarrow> Inl FileNotFoundError | Some n \<Rightarrow> Inr n)" for c
    using assms(1) by (simp add: isdir_outdir) (simp add: stat_def outdir_def)
  with p show ?thesis by metis
qed

lemma makedirs_outdir_creates:
  "makedirs outdir True t = (t1, r) \<Longrightarrow> t1 p = t p \<or> (t p = None \<and> t1 p = Some Dir)"
  by (auto simp add: makedirs_outdir split: option.splits node.splits if_splits)

lemma main_success:
  assumes "main w = (w', None)"
  obtains t1 where "makedirs outdir True (files w) = (t1, None)" and "isdir t1 outdir"
    and "t1 image1_png \<noteq> Some Dir" and "t1 image2_png \<noteq> Some Dir" and "t1 image3_png \<noteq> Some Dir"
    and "w' = w\<lparr>files := t1(image1_png \<mapsto> File (PNG img1), image2_png \<mapsto> File (PNG img2),
                               image3_png \<mapsto> File (PNG img3)),
                stdout := stdout w @ [''Created image1.png'', ''Created image2.png'',
                       ''Created image3.png'',
                       CHR 0x0A # ''Test images created in /tmp/test-images/'']\<rparr>"
proof -
  obtain t1 r where m: "makedirs outdir True (files w) = (t1, r)"
    by (cases "makedirs outdir True (files w)")
  with assms have r: "r = None"
    by (auto simp add: main_unfold split: option.splits)
  with m have d: "isdir t1 outdir"
    by (simp add: makedirs_outdir_ok)
  from assms m r have b: "block (tl script) (w\<lparr>files := t1\<rparr>) = (w', None)"
    by (simp add: main_unfold)
  with d have "t1 image1_png \<noteq> Some Dir \<and> t1 image2_png \<noteq> Some Dir \<and> t1 image3_png \<noteq> Some Dir \<and>
     w' = w\<lparr>files := t1(image1_png \<mapsto> File (PNG img1), image2_png \<mapsto> File (PNG img2),
                               image3_png \<mapsto> File (PNG img3)),
                stdout := stdout w @ [''Created image1.png'', ''Created image2.png'',
                       ''Created image3.png'',
                       CHR 0x0A # ''Test images created in /tmp/test-images/'']\<rparr>"
    by (simp add: fixtures_run split: if_splits)
  with m r d show ?thesis using that by blast
qed

lemma img_fields [simp]:
  "mode img1 = ''RGB''" "width img1 = 400" "height img1 = 400" "length (pixels img1) = 160000"
  "mode img2 = ''RGB''" "width img2 = 400" "height img2 = 400" "length (pixels img2) = 160000"
  "mode img3 = ''RGB''" "width img3 = 400" "height img3 = 400" "length (pixels img3) = 160000"
  by (simp_all add: img1_paint img3_paint img2_def polygon_fill_outline)

lemma main_fresh:
  "main fresh =
     (fresh\<lparr>files := [[''tmp''] \<mapsto> Dir, outdir \<mapsto> Dir,
                          image1_png \<mapsto> File (PNG img1), image2_png \<mapsto> File (PNG img2),
                          image3_png \<mapsto> File (PNG img3)],
            stdout := [''Created image1.png'', ''Created image2.png'',
                       ''Created image3.png'',
                       CHR 0x0A # ''Test images created in /tmp/test-images/'']\<rparr>, None)"
  by (simp add: main_unfold fresh_def makedirs_outdir fixtures_run isdir_outdir)

lemma notes_txt_facts [simp]:
  "notes_txt \<noteq> image1_png" "notes_txt \<noteq> image2_png" "notes_txt \<noteq> image3_png"
  "notes_txt \<noteq> outdir" "notes_txt \<noteq> [''tmp'']"
  "image1_png \<noteq> notes_txt" "image2_png \<noteq> notes_txt" "image3_png \<noteq> notes_txt"
  "outdir \<noteq> notes_txt" "[''tmp''] \<noteq> notes_txt"
  by (simp_all add: notes_txt_def image1_png_def image2_png_def image3_png_def outdir_def)

lemma isdir_busy: "isdir (files busy) outdir"
  by (simp add: busy_def isdir_outdir)

lemma main_busy:
  "main busy =
     (busy\<lparr>files := (files busy)(image1_png \<mapsto> File (PNG img1), image2_png \<mapsto> File (PNG img2),
                          image3_png \<mapsto> File (PNG img3)),
            stdout := [''Created image1.png'', ''Created image2.png'',
                       ''Created image3.png'',
                       CHR 0x0A # ''Test images created in /tmp/test-images/'']\<rparr>, None)"
  using isdir_busy
  by (simp add: main_unfold makedirs_outdir_present fixtures_run) (simp add: busy_def)

text \<open>
  C1: a successful run leaves one PNG file for each fixture at its fixed path,
  \<^verbatim>\<open>image1.png\<close>, \<^verbatim>\<open>image2.png\<close> and \<^verbatim>\<open>image3.png\<close> under \<^verbatim>\<open>/tmp/test-images\<close>;
  each decodes to the canvas of its fixture, an RGB image of 400 by 400 pixels; and the
  run produces no other file: any other path is as before, or a directory created on the
  way.
\<close>

theorem run_writes_three_pngs:
  assumes "main w = (w', None)"
  shows "files w' image1_png = Some (File (PNG img1)) \<and>
    files w' image2_png = Some (File (PNG img2)) \<and>
    files w' image3_png = Some (File (PNG img3)) \<and>
    Image_open (files w') image1_png = Some img1 \<and>
    Image_open (files w') image2_png = Some img2 \<and>
    Image_open (files w') image3_png = Some img3 \<and>
    image1_png = [''tmp'', ''test-images'', ''image1.png''] \<and>
    image2_png = [''tmp'', ''test-images'', ''image2.png''] \<and>
    image3_png = [''tmp'', ''test-images'', ''image3.png''] \<and>
    (mode img1, width img1, height img1, length (pixels img1)) = (''RGB'', 400, 400, 160000) \<and>
    (mode img2, width img2, height img2, length (pixels img2)) = (''RGB'', 400, 400, 160000) \<and>
    (mode img3, width img3, height img3, length (pixels img3)) = (''RGB'', 400, 400, 160000) \<and>
    (\<forall>p. p \<notin> {image1_png, image2_png, image3_png} \<longrightarrow>
         files w' p = files w p \<or> (files w p = None \<and> files w' p = Some Dir))"
proof -
  from assms obtain t1 where m: "makedirs outdir True (files w) = (t1, None)"
    and d: "isdir t1 outdir"
    and w': "w' = w\<lparr>files := t1(image1_png \<mapsto> File (PNG img1), image2_png \<mapsto> File (PNG img2),
                               image3_png \<mapsto> File (PNG img3)),
                stdout := stdout w @ [''Created image1.png'', ''Created image2.png'',
                       ''Created image3.png'',
                       CHR 0x0A # ''Test images created in /tmp/test-images/'']\<rparr>"
    by (rule main_success)
  let ?t = "t1(image1_png \<mapsto> File (PNG img1), image2_png \<mapsto> File (PNG img2),
               image3_png \<mapsto> File (PNG img3))"
  have f: "files w' = ?t" by (simp add: w')
  have d': "isdir ?t outdir" using d by (simp add: isdir_outdir)
  have files: "?t image1_png = Some (File (PNG img1))" "?t image2_png = Some (File (PNG img2))"
    "?t image3_png = Some (File (PNG img3))"
    by simp_all
  have opened: "Image_open ?t image1_png = Some img1" "Image_open ?t image2_png = Some img2"
    "Image_open ?t image3_png = Some img3"
    using d' by (simp_all add: Image_open_def stat_in_outdir)
  have names: "image1_png = [''tmp'', ''test-images'', ''image1.png'']"
    "image2_png = [''tmp'', ''test-images'', ''image2.png'']"
    "image3_png = [''tmp'', ''test-images'', ''image3.png'']"
    by (simp_all add: image1_png_def image2_png_def image3_png_def outdir_def)
  have others: "?t p = files w p \<or> (files w p = None \<and> ?t p = Some Dir)"
    if "p \<notin> {image1_png, image2_png, image3_png}" for p
    using that makedirs_outdir_creates [OF m, of p] by simp
  show ?thesis
    unfolding f using files opened names others by simp
qed

theorem run_writes_three_pngs_witness:
  "snd (main fresh) = None \<and>
   Image_open (files (fst (main fresh))) image1_png = Some img1 \<and>
   Image_open (files (fst (main fresh))) image2_png = Some img2 \<and>
   Image_open (files (fst (main fresh))) image3_png = Some img3 \<and>
   width img1 = 400 \<and> height img1 = 400"
  using run_writes_three_pngs [of fresh "fst (main fresh)"] main_fresh
  by simp

text \<open>
  C5: running the script again after a successful run succeeds again and leaves the
  directory tree exactly as the first run left it. The first run has left the three PNG
  files, the second run leaves them again, no path is added and none is removed; only the
  console grows. The second run writes the files rather than finding them: whatever files
  are put at the three paths between the runs, the run replaces each with its PNG and
  ends in the same tree.
\<close>

theorem rerun_is_idempotent:
  assumes "main w = (w1, None)"
  shows "main w1 =
      (w1\<lparr>stdout := stdout w1 @ [''Created image1.png'', ''Created image2.png'',
                       ''Created image3.png'',
                       CHR 0x0A # ''Test images created in /tmp/test-images/'']\<rparr>, None) \<and>
    files (fst (main w1)) = files w1 \<and> dom (files (fst (main w1))) = dom (files w1) \<and>
    files w1 image1_png = Some (File (PNG img1)) \<and>
    files w1 image2_png = Some (File (PNG img2)) \<and>
    files w1 image3_png = Some (File (PNG img3)) \<and>
    files (fst (main w1)) image1_png = Some (File (PNG img1)) \<and>
    files (fst (main w1)) image2_png = Some (File (PNG img2)) \<and>
    files (fst (main w1)) image3_png = Some (File (PNG img3)) \<and>
    main (w1\<lparr>files := (files w1)(image1_png \<mapsto> File c1, image2_png \<mapsto> File c2,
                                 image3_png \<mapsto> File c3)\<rparr>) =
      (w1\<lparr>stdout := stdout w1 @ [''Created image1.png'', ''Created image2.png'',
                       ''Created image3.png'',
                       CHR 0x0A # ''Test images created in /tmp/test-images/'']\<rparr>, None)"
proof -
  from assms obtain t1 where d: "isdir t1 outdir"
    and w1: "w1 = w\<lparr>files := t1(image1_png \<mapsto> File (PNG img1), image2_png \<mapsto> File (PNG img2),
                               image3_png \<mapsto> File (PNG img3)),
                stdout := stdout w @ [''Created image1.png'', ''Created image2.png'',
                       ''Created image3.png'',
                       CHR 0x0A # ''Test images created in /tmp/test-images/'']\<rparr>"
    by (rule main_success)
  let ?t = "t1(image1_png \<mapsto> File (PNG img1), image2_png \<mapsto> File (PNG img2),
               image3_png \<mapsto> File (PNG img3))"
  let ?lines = "[''Created image1.png'', ''Created image2.png'', ''Created image3.png'',
                 CHR 0x0A # ''Test images created in /tmp/test-images/'']"
  have f: "files w1 = ?t" by (simp add: w1)
  have d1: "isdir (files w1) outdir" using d by (simp add: f isdir_outdir)
  have same: "(files w1)(image1_png \<mapsto> File (PNG img1), image2_png \<mapsto> File (PNG img2),
               image3_png \<mapsto> File (PNG img3)) = files w1"
    unfolding f by (rule ext) simp
  have written: "files w1 image1_png = Some (File (PNG img1))"
    "files w1 image2_png = Some (File (PNG img2))"
    "files w1 image3_png = Some (File (PNG img3))"
    by (simp_all add: f)
  have again: "main w1 = (w1\<lparr>stdout := stdout w1 @ ?lines\<rparr>, None)"
    using d1 written by (simp add: main_unfold makedirs_outdir_present fixtures_run same)
  let ?stale = "(files w1)(image1_png \<mapsto> File c1, image2_png \<mapsto> File c2,
                           image3_png \<mapsto> File c3)"
  have ds: "isdir ?stale outdir" using d1 by (simp add: isdir_outdir)
  have over: "?stale(image1_png \<mapsto> File (PNG img1), image2_png \<mapsto> File (PNG img2),
               image3_png \<mapsto> File (PNG img3)) = files w1"
    unfolding f by (rule ext) simp
  have stale: "main (w1\<lparr>files := ?stale\<rparr>) = (w1\<lparr>stdout := stdout w1 @ ?lines\<rparr>, None)"
    using ds by (simp add: main_unfold makedirs_outdir_present fixtures_run over same)
  show ?thesis
    using again written stale by simp
qed

theorem rerun_is_idempotent_witness:
  "snd (main fresh) = None \<and> snd (main (fst (main fresh))) = None \<and>
   files (fst (main (fst (main fresh)))) = files (fst (main fresh)) \<and>
   files (fst (main fresh)) image1_png = Some (File (PNG img1)) \<and>
   files (fst (main (fst (main fresh)))) image1_png = Some (File (PNG img1)) \<and>
   files (fst (main (fst (main fresh)))) image2_png = Some (File (PNG img2)) \<and>
   files (fst (main (fst (main fresh)))) image3_png = Some (File (PNG img3)) \<and>
   files (fst (main ((fst (main fresh))
      \<lparr>files := (files (fst (main fresh)))
         (image1_png \<mapsto> File (Bytes [0]), image2_png \<mapsto> File (Bytes [1]),
          image3_png \<mapsto> File (Bytes [2]))\<rparr>))) = files (fst (main fresh))"
proof -
  have a: "main fresh = (fst (main fresh), None)"
    by (simp add: main_fresh)
  have s: "snd (main fresh) = None"
    by (simp add: main_fresh)
  note r = rerun_is_idempotent [OF a, of "Bytes [0]" "Bytes [1]" "Bytes [2]"]
  from r have two: "snd (main (fst (main fresh))) = None"
    by simp
  from r have stale: "files (fst (main ((fst (main fresh))
      \<lparr>files := (files (fst (main fresh)))
         (image1_png \<mapsto> File (Bytes [0]), image2_png \<mapsto> File (Bytes [1]),
          image3_png \<mapsto> File (Bytes [2]))\<rparr>))) = files (fst (main fresh))"
    by simp
  from r s two stale show ?thesis
    by blast
qed

text \<open>
  C6: when the output directory exists before the run, every path other than the three
  image files holds after the run what it held before, whether the run succeeds or not.
\<close>

theorem unrelated_files_untouched:
  assumes "isdir (files w) outdir" and "p \<notin> {image1_png, image2_png, image3_png}"
  shows "files (fst (main w)) p = files w p"
  using assms
  by (simp add: main_unfold makedirs_outdir_present fixtures_run)

theorem unrelated_files_untouched_witness:
  "isdir (files busy) outdir \<and> notes_txt \<notin> {image1_png, image2_png, image3_png} \<and>
   files busy notes_txt = Some (File (Bytes [0x68, 0x69])) \<and>
   files (fst (main busy)) notes_txt = Some (File (Bytes [0x68, 0x69])) \<and>
   files (fst (main busy)) image1_png = Some (File (PNG img1))"
  using unrelated_files_untouched [of busy notes_txt] isdir_busy main_busy
  by (simp add: busy_def)

























end
